theory Spec2Isabelle
  imports Main "HOL-Library.Sublist"
begin

section \<open>The trivia service: data model\<close>

text \<open>
  The two tables of \<^verbatim>\<open>models.py\<close> as the handlers of \<^verbatim>\<open>flaskr/__init__.py\<close> use them.
  A question row has an integer primary key, two texts, the category reference in its
  textual form (the handlers compare it with \<^verbatim>\<open>str(category_id)\<close>) and an integer
  difficulty. A category row has an integer primary key and a display label.
\<close>

record Question =
  qid :: int
  question :: string
  answer :: string
  category :: string
  difficulty :: int

record Category =
  cid :: int
  ctype :: string

text \<open>
  The database: both tables in storage order, and the sequence that hands out the
  primary keys of new questions.
\<close>

record store =
  question_rows :: "Question list"
  category_rows :: "Category list"
  question_id_seq :: int

text \<open>
  The primary keys are unique, and the sequence is ahead of every key handed out so far.
\<close>

definition wf_store :: "store \<Rightarrow> bool" where
  "wf_store s \<longleftrightarrow>
     distinct (map qid (question_rows s)) \<and>
     distinct (map cid (category_rows s)) \<and>
     list_all (\<lambda>q. qid q < question_id_seq s) (question_rows s)"

text \<open>
  \<^verbatim>\<open>abort(404)\<close> and \<^verbatim>\<open>abort(422)\<close> end a request, and so does an exception that no
  handler catches, with status 500; the registered error handlers turn them into the
  envelope \<^verbatim>\<open>{success: False, error: code, message: text}\<close>.
\<close>

datatype http_error = NotFound | Unprocessable | InternalServerError

fun error_code :: "http_error \<Rightarrow> nat" where
  "error_code NotFound = 404"
| "error_code Unprocessable = 422"
| "error_code InternalServerError = 500"

fun error_message :: "http_error \<Rightarrow> string" where
  "error_message NotFound = ''The requested resource could not be found.''"
| "error_message Unprocessable = ''Unprocessable request.''"
| "error_message InternalServerError = ''Something went wrong on the server.''"

text \<open>
  The body of the three responses that carry a list of questions. The key
  \<^verbatim>\<open>categories\<close> is present only in the paginated listing, \<^verbatim>\<open>currentCategory\<close> is
  \<^verbatim>\<open>None\<close> except in the listing by category.
\<close>

record questions_body =
  success :: bool
  questions :: "Question list"
  totalQuestions :: nat
  categories :: "(int \<rightharpoonup> string) option"
  currentCategory :: "string option"

datatype delete_body = DeleteBody (delete_success: bool) (delete_id: int)

datatype quiz_body = QuizBody (quiz_success: bool) (quiz_question: "Question option")

datatype post_body = SearchBody questions_body | CreateBody bool

section \<open>Python and SQL primitives\<close>

text \<open>\<^verbatim>\<open>str\<close> on an integer: decimal digits, a minus sign for a negative number.\<close>

definition digit_char :: "nat \<Rightarrow> char" where
  "digit_char d = ''0123456789'' ! (d mod 10)"

function str_nat :: "nat \<Rightarrow> string" where
  "str_nat n = (if n < 10 then [digit_char n] else str_nat (n div 10) @ [digit_char (n mod 10)])"
  by pat_completeness auto
termination
  by (relation "measure (\<lambda>n. n)") auto

declare str_nat.simps [simp del]

definition str_int :: "int \<Rightarrow> string" where
  "str_int i = (if i < 0 then CHR ''-'' # str_nat (nat (- i)) else str_nat (nat i))"

text \<open>
  A list slice \<^verbatim>\<open>xs[start:stop]\<close>: a negative bound counts from the end, and both
  bounds are then clamped to the list.
\<close>

definition slice_bound :: "nat \<Rightarrow> int \<Rightarrow> nat" where
  "slice_bound n i = (if i < 0 then nat (max (i + int n) 0) else min (nat i) n)"

definition py_slice :: "'a list \<Rightarrow> int \<Rightarrow> int \<Rightarrow> 'a list" where
  "py_slice xs start stop =
     (let a = slice_bound (length xs) start;
          b = slice_bound (length xs) stop
      in take (b - a) (drop a xs))"

text \<open>
  A key of a JSON object is absent, holds null, or holds a value. \<^verbatim>\<open>d.get(key, default)\<close>
  uses the default only for an absent key; a null is read as Python's \<^verbatim>\<open>None\<close>, here
  \<^verbatim>\<open>None\<close> as well.
\<close>

datatype 'a json_field = Absent | Null | Value 'a

fun dict_get :: "'a json_field \<Rightarrow> 'a option \<Rightarrow> 'a option" where
  "dict_get Absent dflt = dflt"
| "dict_get Null dflt = None"
| "dict_get (Value v) dflt = Some v"

text \<open>Truthiness of the values a payload field can hold (\<^verbatim>\<open>None\<close> is the absent or null field).\<close>

fun truthy_str :: "string option \<Rightarrow> bool" where
  "truthy_str None = False"
| "truthy_str (Some t) = (t \<noteq> [])"

fun truthy_int :: "int option \<Rightarrow> bool" where
  "truthy_int None = False"
| "truthy_int (Some i) = (i \<noteq> 0)"

text \<open>
  The SQL operator \<^verbatim>\<open>ILIKE\<close>, which \<^verbatim>\<open>Question.question.ilike(pattern)\<close> compiles to.
  In a pattern \<^verbatim>\<open>%\<close> stands for any sequence of characters, \<^verbatim>\<open>_\<close> for any one
  character, and a backslash (the default escape character of PostgreSQL, the database
  the tests configure) makes the character after it stand for itself. Both sides are
  compared without regard to the case of the letters A to Z.
\<close>

definition lower_char :: "char \<Rightarrow> char" where
  "lower_char c =
     (case map_of (zip ''ABCDEFGHIJKLMNOPQRSTUVWXYZ'' ''abcdefghijklmnopqrstuvwxyz'') c of
        None \<Rightarrow> c
      | Some l \<Rightarrow> l)"

fun like_match :: "string \<Rightarrow> string \<Rightarrow> bool" where
  "like_match [] t = (t = [])"
| "like_match (p # ps) t =
     (if p = CHR ''%'' then
        (like_match ps t \<or> (case t of [] \<Rightarrow> False | _ # t' \<Rightarrow> like_match (p # ps) t'))
      else if p = CHR ''_'' then
        (case t of [] \<Rightarrow> False | _ # t' \<Rightarrow> like_match ps t')
      else if p = CHR 0x5C then
        (case ps of [] \<Rightarrow> False
         | e # ps' \<Rightarrow> (case t of [] \<Rightarrow> False | c # t' \<Rightarrow> c = e \<and> like_match ps' t'))
      else
        (case t of [] \<Rightarrow> False | c # t' \<Rightarrow> c = p \<and> like_match ps t'))"

definition ilike :: "string \<Rightarrow> string \<Rightarrow> bool" where
  "ilike text pattern = like_match (map lower_char pattern) (map lower_char text)"

text \<open>
  A pattern that ends in a lone escape character is rejected by the database. The
  patterns built by the search handler end in \<^verbatim>\<open>%\<close>, so they never do.
\<close>

fun like_wf :: "string \<Rightarrow> bool" where
  "like_wf [] = True"
| "like_wf [c] = (c \<noteq> CHR 0x5C)"
| "like_wf (c # d # ps) = (if c = CHR 0x5C then like_wf ps else like_wf (d # ps))"

text \<open>A search term without any of the three special characters of a pattern.\<close>

definition like_plain :: "string \<Rightarrow> bool" where
  "like_plain ps = list_all (\<lambda>c. c \<noteq> CHR ''%'' \<and> c \<noteq> CHR ''_'' \<and> c \<noteq> CHR 0x5C) ps"

text \<open>
  \<^verbatim>\<open>random.choice\<close> on a non-empty list, with the draw of the random source as a
  parameter: the element at the drawn index.
\<close>

definition random_choice :: "nat \<Rightarrow> 'a list \<Rightarrow> 'a" where
  "random_choice r xs = xs ! (r mod length xs)"

section \<open>The request handlers\<close>

definition QUESTIONS_PER_PAGE :: int where
  "QUESTIONS_PER_PAGE = 10"

text \<open>
  Modelled from the spec: \<^verbatim>\<open>Question.format\<close> of \<^verbatim>\<open>models.py\<close>, which is not among the
  sources. The record shape exposed to callers is
  \<^verbatim>\<open>{id, question, answer, difficulty, category}\<close>, the fields of the row itself.
\<close>

definition format :: "Question \<Rightarrow> Question" where
  "format q = q"

text \<open>
  Modelled from the spec: the constructor and \<^verbatim>\<open>insert\<close> of \<^verbatim>\<open>Question\<close> in
  \<^verbatim>\<open>models.py\<close>, which is not among the sources. The new row gets the next unique id,
  the category is kept in its textual form, and the row is added to the table.
\<close>

definition insert_question :: "store \<Rightarrow> string \<Rightarrow> string \<Rightarrow> int \<Rightarrow> int \<Rightarrow> store" where
  "insert_question s question_text answer_text difficulty_val category_val =
     s\<lparr>question_rows := question_rows s @
          [\<lparr>qid = question_id_seq s, question = question_text, answer = answer_text,
            category = str_int category_val, difficulty = difficulty_val\<rparr>],
       question_id_seq := question_id_seq s + 1\<rparr>"

text \<open>The comprehension \<^verbatim>\<open>{cat.id: cat.type for cat in Category.query.all()}\<close>.\<close>

definition categories_dict :: "Category list \<Rightarrow> (int \<rightharpoonup> string)" where
  "categories_dict cats = fold (\<lambda>cat m. m(cid cat \<mapsto> ctype cat)) cats Map.empty"

text \<open>
  \<^verbatim>\<open>GET /questions\<close>. The argument is the query parameter \<^verbatim>\<open>page\<close> as
  \<^verbatim>\<open>request.args.get('page', 1, type=int)\<close> reads it: \<^verbatim>\<open>None\<close> when it is absent or not
  an integer.
\<close>

definition get_questions :: "store \<Rightarrow> int option \<Rightarrow> http_error + questions_body \<times> nat" where
  "get_questions s page_arg =
     (let page = (case page_arg of None \<Rightarrow> 1 | Some p \<Rightarrow> p);
          per_page = QUESTIONS_PER_PAGE;
          questions_query = sort_key qid (question_rows s);
          formatted_questions = map format questions_query;
          paginated = py_slice formatted_questions ((page - 1) * per_page) (page * per_page)
      in if paginated = [] then Inl NotFound
         else Inr (\<lparr>success = True, questions = paginated,
                     totalQuestions = length formatted_questions,
                     categories = Some (categories_dict (category_rows s)),
                     currentCategory = None\<rparr>, 200))"

text \<open>\<^verbatim>\<open>DELETE /questions/<int:question_id>\<close>.\<close>

definition remove_question :: "store \<Rightarrow> int \<Rightarrow> http_error + store \<times> delete_body \<times> nat" where
  "remove_question s question_id =
     (case find (\<lambda>q. qid q = question_id) (question_rows s) of
        None \<Rightarrow> Inl NotFound
      | Some found \<Rightarrow>
          Inr (s\<lparr>question_rows := filter (\<lambda>q. qid q \<noteq> qid found) (question_rows s)\<rparr>,
               DeleteBody True question_id, 200))"

text \<open>
  \<^verbatim>\<open>POST /questions\<close>. The JSON body after parsing, with the field types of the data
  model: a field is \<^verbatim>\<open>None\<close> when its key is absent or null (\<^verbatim>\<open>payload.get\<close> returns
  \<^verbatim>\<open>None\<close> for both).
\<close>

record post_payload =
  searchTerm :: "string option"
  question_field :: "string option"
  answer_field :: "string option"
  difficulty_field :: "int option"
  category_field :: "int option"

definition add_or_search_question ::
  "store \<Rightarrow> post_payload \<Rightarrow> http_error + store \<times> post_body \<times> nat" where
  "add_or_search_question s payload =
     (let search = searchTerm payload in
      if truthy_str search then
        (let matches = filter (\<lambda>q. ilike (question q) (''%'' @ the search @ ''%''))
                         (question_rows s)
         in if matches = [] then Inl NotFound
            else (let results = map format matches
                  in Inr (s, SearchBody \<lparr>success = True, questions = results,
                                          totalQuestions = length results,
                                          categories = None, currentCategory = None\<rparr>, 200)))
      else
        (let question_text = question_field payload;
             answer_text = answer_field payload;
             difficulty_val = difficulty_field payload;
             category_val = category_field payload
         in if \<not> list_all (\<lambda>b. b) [truthy_str question_text, truthy_str answer_text,
                                    truthy_int difficulty_val, truthy_int category_val]
            then Inl Unprocessable
            else Inr (insert_question s (the question_text) (the answer_text)
                        (the difficulty_val) (the category_val),
                      CreateBody True, 201)))"

text \<open>\<^verbatim>\<open>GET /categories/<int:category_id>/questions\<close>.\<close>

definition get_questions_by_category ::
  "store \<Rightarrow> int \<Rightarrow> http_error + questions_body \<times> nat" where
  "get_questions_by_category s category_id =
     (case find (\<lambda>c. cid c = category_id) (category_rows s) of
        None \<Rightarrow> Inl NotFound
      | Some category_obj \<Rightarrow>
          (let filtered_questions =
                 filter (\<lambda>q. category q = str_int category_id) (question_rows s);
               formatted = map format filtered_questions
           in Inr (\<lparr>success = True, questions = formatted,
                     totalQuestions = length formatted,
                     categories = None,
                     currentCategory = Some (ctype category_obj)\<rparr>, 200)))"

text \<open>
  \<^verbatim>\<open>POST /quizzes\<close>. The body is a JSON object with the keys \<^verbatim>\<open>previous_questions\<close>, a
  list of ids, and \<^verbatim>\<open>quiz_category\<close>, an object with the key \<^verbatim>\<open>id\<close>; each key may be
  absent or null. The query that computes the candidates is a definition of its own.
\<close>

record quiz_category_obj =
  id_field :: "int json_field"

record quiz_payload =
  previous_questions :: "int list json_field"
  quiz_category :: "quiz_category_obj json_field"

definition available_questions :: "store \<Rightarrow> int list \<Rightarrow> int option \<Rightarrow> Question list" where
  "available_questions s seen_questions selected_category =
     (if truthy_int selected_category \<and> str_int (the selected_category) \<noteq> ''0'' then
        filter (\<lambda>q. category q = str_int (the selected_category) \<and>
                     qid q \<notin> set seen_questions) (question_rows s)
      else
        filter (\<lambda>q. qid q \<notin> set seen_questions) (question_rows s))"

text \<open>
  The handler reads \<^verbatim>\<open>data.get('previous_questions', [])\<close> and
  \<^verbatim>\<open>data.get('quiz_category', {}).get('id', None)\<close>. For a null \<^verbatim>\<open>quiz_category\<close> the
  second \<^verbatim>\<open>get\<close> is called on \<^verbatim>\<open>None\<close> and raises \<^verbatim>\<open>AttributeError\<close>; for a null
  \<^verbatim>\<open>previous_questions\<close> the query is built with \<^verbatim>\<open>in_(None)\<close>, which the query
  library refuses. Neither exception is caught.
\<close>

definition play_quiz :: "store \<Rightarrow> quiz_payload \<Rightarrow> nat \<Rightarrow> http_error + quiz_body \<times> nat" where
  "play_quiz s data r =
     (let seen_questions = dict_get (previous_questions data) (Some []) in
      case dict_get (quiz_category data) (Some \<lparr>id_field = Absent\<rparr>) of
        None \<Rightarrow> Inl InternalServerError
      | Some category_obj \<Rightarrow>
          (let selected_category = dict_get (id_field category_obj) None in
           case seen_questions of
             None \<Rightarrow> Inl InternalServerError
           | Some seen \<Rightarrow>
               (let available = available_questions s seen selected_category
                in if available = [] then Inr (QuizBody True None, 200)
                   else (let next_question = random_choice r available
                         in Inr (QuizBody True (Some (format next_question)), 200)))))"

text \<open>
  The two endpoints that change the database, as requests, and a run of such requests.
  A request that ends in an error leaves the database as it was.
\<close>

datatype request = PostQuestions post_payload | DeleteQuestion int

fun apply_request :: "store \<Rightarrow> request \<Rightarrow> store" where
  "apply_request s (PostQuestions payload) =
     (case add_or_search_question s payload of Inl e \<Rightarrow> s | Inr (s', body, status) \<Rightarrow> s')"
| "apply_request s (DeleteQuestion question_id) =
     (case remove_question s question_id of Inl e \<Rightarrow> s | Inr (s', body, status) \<Rightarrow> s')"

fun apply_requests :: "store \<Rightarrow> request list \<Rightarrow> store" where
  "apply_requests s [] = s"
| "apply_requests s (r # rs) = apply_requests (apply_request s r) rs"

text \<open>
  An id that the sequence has passed and that no stored question has: it is never handed
  out again.
\<close>

definition id_retired :: "int \<Rightarrow> store \<Rightarrow> bool" where
  "id_retired i s \<longleftrightarrow> i < question_id_seq s \<and> i \<notin> qid ` set (question_rows s)"

section \<open>The specification's wording\<close>

text \<open>
  The page of the specification: the items of the sequence whose index lies in
  \<^verbatim>\<open>[(pageNumber-1)*pageSize, pageNumber*pageSize)\<close>.
\<close>

definition paginate_spec :: "'a list \<Rightarrow> int \<Rightarrow> int \<Rightarrow> 'a list" where
  "paginate_spec xs pageNumber pageSize =
     map (\<lambda>i. xs ! i)
       (filter (\<lambda>i. (pageNumber - 1) * pageSize \<le> int i \<and> int i < pageNumber * pageSize)
          [0..<length xs])"

text \<open>
  The search of the specification: the questions whose text contains the term as a
  literal substring, compared without regard to case.
\<close>

definition searchBySubstring_spec :: "string \<Rightarrow> Question list \<Rightarrow> Question list" where
  "searchBySubstring_spec needle rows =
     filter (\<lambda>q. sublist (map lower_char needle) (map lower_char (question q))) rows"

text \<open>
  The creation requirement of the specification: none of the four fields is missing, and
  neither text is empty.
\<close>

definition spec_missing_or_empty :: "post_payload \<Rightarrow> bool" where
  "spec_missing_or_empty payload \<longleftrightarrow>
     question_field payload = None \<or> question_field payload = Some [] \<or>
     answer_field payload = None \<or> answer_field payload = Some [] \<or>
     difficulty_field payload = None \<or> category_field payload = None"

section \<open>Sample data\<close>

definition q_planet :: Question where
  "q_planet = \<lparr>qid = 2, question = ''Which planet is the largest?'', answer = ''Jupiter'',
               category = ''1'', difficulty = 2\<rparr>"

definition q_mona :: Question where
  "q_mona = \<lparr>qid = 5, question = ''Who painted the Mona Lisa?'', answer = ''Leonardo'',
             category = ''2'', difficulty = 3\<rparr>"

definition q_water :: Question where
  "q_water = \<lparr>qid = 9, question = ''What is the boiling point of water?'', answer = ''100'',
              category = ''1'', difficulty = 1\<rparr>"

definition example_store :: store where
  "example_store =
     \<lparr>question_rows = [q_planet, q_mona, q_water],
      category_rows =
        [\<lparr>cid = 1, ctype = ''Science''\<rparr>, \<lparr>cid = 2, ctype = ''Art''\<rparr>,
         \<lparr>cid = 3, ctype = ''Geography''\<rparr>],
      question_id_seq = 10\<rparr>"

definition numbered_question :: "int \<Rightarrow> Question" where
  "numbered_question i =
     \<lparr>qid = i, question = ''What is it?'', answer = ''It'', category = ''1'', difficulty = 1\<rparr>"

text \<open>Eleven questions, stored out of order.\<close>

definition paged_store :: store where
  "paged_store =
     \<lparr>question_rows = map numbered_question [12, 3, 1, 2, 4, 5, 6, 7, 8, 9, 10],
      category_rows = [\<lparr>cid = 1, ctype = ''Science''\<rparr>],
      question_id_seq = 13\<rparr>"

text \<open>Request bodies.\<close>

definition search_payload :: "string \<Rightarrow> post_payload" where
  "search_payload needle =
     \<lparr>searchTerm = Some needle, question_field = None, answer_field = None,
      difficulty_field = None, category_field = None\<rparr>"

definition create_payload :: "string \<Rightarrow> string \<Rightarrow> int \<Rightarrow> int \<Rightarrow> post_payload" where
  "create_payload q a d c =
     \<lparr>searchTerm = None, question_field = Some q, answer_field = Some a,
      difficulty_field = Some d, category_field = Some c\<rparr>"

definition quiz_request :: "int list \<Rightarrow> int \<Rightarrow> quiz_payload" where
  "quiz_request seen c =
     \<lparr>previous_questions = Value seen, quiz_category = Value \<lparr>id_field = Value c\<rparr>\<rparr>"

section \<open>Auxiliary facts\<close>

lemma format_row [simp]: "format q = q"
  by (simp add: format_def)

lemma map_format [simp]: "map format xs = xs"
  by (induction xs) simp_all

lemma wf_example_store: "wf_store example_store"
  by (simp add: wf_store_def example_store_def q_planet_def q_mona_def q_water_def)

lemma wf_paged_store: "wf_store paged_store"
  by (simp add: wf_store_def paged_store_def numbered_question_def)

subsection \<open>The decimal form of an integer\<close>

lemma str_nat_not_Nil: "str_nat n \<noteq> []"
  by (subst str_nat.simps) simp

lemma digit_char_zero: "d < 10 \<Longrightarrow> digit_char d = CHR ''0'' \<longleftrightarrow> d = 0"
proof (cases d)
  case 0
  then show ?thesis
    by (simp add: digit_char_def)
next
  case (Suc k)
  assume "d < 10"
  with Suc have k: "k < length ''123456789''"
    by simp
  from Suc \<open>d < 10\<close> have "digit_char d = ''123456789'' ! k"
    by (simp add: digit_char_def)
  with nth_mem [OF k] have "digit_char d \<in> set ''123456789''"
    by simp
  with Suc show ?thesis
    by auto
qed

lemma str_nat_zero: "str_nat n = ''0'' \<longleftrightarrow> n = 0"
proof (cases "n < 10")
  case True
  then show ?thesis
    by (subst str_nat.simps) (simp add: digit_char_zero)
next
  case False
  then show ?thesis
    by (subst str_nat.simps) (simp add: str_nat_not_Nil)
qed

lemma str_int_zero: "str_int i = ''0'' \<longleftrightarrow> i = 0"
  by (auto simp: str_int_def str_nat_zero)

lemma str_int_1: "str_int 1 = ''1''"
  by (simp add: str_int_def str_nat.simps digit_char_def)

lemma str_int_2: "str_int 2 = ''2''"
  by (simp add: str_int_def str_nat.simps digit_char_def)

lemma str_int_3: "str_int 3 = ''3''"
  by (simp add: str_int_def str_nat.simps digit_char_def)

subsection \<open>Lookups by primary key\<close>

lemma find_cid_distinct:
  "distinct (map cid cs) \<Longrightarrow> c \<in> set cs \<Longrightarrow> find (\<lambda>x. cid x = cid c) cs = Some c"
  by (induction cs) (auto simp: rev_image_eqI)

lemma find_absent: "k \<notin> f ` set xs \<Longrightarrow> find (\<lambda>x. f x = k) xs = None"
  by (auto simp: find_None_iff)

subsection \<open>The quiz candidates\<close>

lemma random_choice_in: "xs \<noteq> [] \<Longrightarrow> random_choice r xs \<in> set xs"
  by (simp add: random_choice_def)

lemma available_questions_restricted:
  "c \<noteq> 0 \<Longrightarrow> available_questions s seen (Some c) =
     filter (\<lambda>q. category q = str_int c \<and> qid q \<notin> set seen) (question_rows s)"
  by (simp add: available_questions_def str_int_zero)

lemma available_questions_unrestricted:
  "selected = None \<or> selected = Some 0 \<Longrightarrow> available_questions s seen selected =
     filter (\<lambda>q. qid q \<notin> set seen) (question_rows s)"
  by (auto simp: available_questions_def)

lemma play_quiz_cases:
  assumes "dict_get (quiz_category data) (Some \<lparr>id_field = Absent\<rparr>) = Some obj"
    and "dict_get (previous_questions data) (Some []) = Some seen"
  shows "play_quiz s data r =
           (if available_questions s seen (dict_get (id_field obj) None) = []
            then Inr (QuizBody True None, 200)
            else Inr (QuizBody True
                   (Some (random_choice r
                      (available_questions s seen (dict_get (id_field obj) None)))), 200))"
  using assms by (simp add: play_quiz_def Let_def)

lemma play_quiz_null:
  "quiz_category data = Null \<or> previous_questions data = Null \<Longrightarrow>
     play_quiz s data r = Inl InternalServerError"
  by (auto simp: play_quiz_def Let_def split: option.splits)

lemma play_quiz_Inr_fields:
  assumes "play_quiz s data r = Inr result"
  obtains obj seen where
    "dict_get (quiz_category data) (Some \<lparr>id_field = Absent\<rparr>) = Some obj"
    "dict_get (previous_questions data) (Some []) = Some seen"
  using assms by (auto simp: play_quiz_def Let_def split: option.splits)

section \<open>Quiz selection\<close>

text \<open>
  Claim C4. A question returned by the quiz endpoint is one of the stored questions, its id
  is not among the previously played ids, and when a category id other than 0 is supplied
  its stored category is the decimal string of that id. When the category id is absent or
  0, the candidates are all the questions not yet played, whatever their category.
\<close>

theorem play_quiz_candidate:
  "(play_quiz s data r = Inr (QuizBody ok (Some q), st) \<longrightarrow>
      q \<in> set (question_rows s) \<and>
      (\<forall>ids. previous_questions data = Value ids \<longrightarrow> qid q \<notin> set ids) \<and>
      (\<forall>obj c. quiz_category data = Value obj \<and> id_field obj = Value c \<and> c \<noteq> 0 \<longrightarrow>
          category q = str_int c)) \<and>
   (selected = None \<or> selected = Some 0 \<longrightarrow>
      available_questions s seen selected =
        filter (\<lambda>q. qid q \<notin> set seen) (question_rows s))"
proof -
  have "q \<in> set (question_rows s) \<and>
        (\<forall>ids. previous_questions data = Value ids \<longrightarrow> qid q \<notin> set ids) \<and>
        (\<forall>obj c. quiz_category data = Value obj \<and> id_field obj = Value c \<and> c \<noteq> 0 \<longrightarrow>
            category q = str_int c)"
    if run: "play_quiz s data r = Inr (QuizBody ok (Some q), st)"
  proof -
    from run obtain obj0 seen0 where
      obj0: "dict_get (quiz_category data) (Some \<lparr>id_field = Absent\<rparr>) = Some obj0" and
      seen0: "dict_get (previous_questions data) (Some []) = Some seen0"
      by (rule play_quiz_Inr_fields)
    let ?sel = "dict_get (id_field obj0) None"
    let ?av = "available_questions s seen0 ?sel"
    from run have ne: "?av \<noteq> []" and q: "q = random_choice r ?av"
      by (auto simp: play_quiz_cases [OF obj0 seen0] split: if_splits)
    from random_choice_in [OF ne] q have mem: "q \<in> set ?av"
      by simp
    have unseen: "qid q \<notin> set seen0" and stored: "q \<in> set (question_rows s)"
      using mem by (auto simp: available_questions_def split: if_splits)
    have "qid q \<notin> set ids" if "previous_questions data = Value ids" for ids
      using that seen0 unseen by simp
    moreover have "category q = str_int c"
      if "quiz_category data = Value obj" "id_field obj = Value c" "c \<noteq> 0" for obj c
    proof -
      from that obj0 have "?sel = Some c"
        by simp
      with mem that(3) show ?thesis
        by (simp add: available_questions_restricted)
    qed
    ultimately show ?thesis
      using stored by blast
  qed
  then show ?thesis
    by (auto simp: available_questions_unrestricted)
qed

text \<open>
  With question 2 already played and category 1 chosen, the only candidate is the question
  about water; with category 0 or no category, the painting question is a candidate too.
\<close>

theorem play_quiz_candidate_witness:
  "play_quiz example_store (quiz_request [2] 1) 0 = Inr (QuizBody True (Some q_water), 200) \<and>
   q_water \<in> set (question_rows example_store) \<and>
   previous_questions (quiz_request [2] 1) = Value [2] \<and>
   qid q_water \<notin> set [2] \<and>
   quiz_category (quiz_request [2] 1) = Value \<lparr>id_field = Value 1\<rparr> \<and>
   category q_water = str_int 1 \<and>
   available_questions example_store [2] (Some 0) = [q_mona, q_water] \<and>
   available_questions example_store [2] None = [q_mona, q_water]"
  using
    play_quiz_candidate [of example_store "quiz_request [2] 1" 0 True q_water 200 "Some 0" "[2]"]
    play_quiz_candidate [of example_store "quiz_request [2] 1" 0 True q_water 200 None "[2]"]
  by (simp add: quiz_request_def play_quiz_def available_questions_def random_choice_def
        str_int_1 example_store_def q_planet_def q_mona_def q_water_def)

text \<open>
  Unless one of the two keys is null, the quiz endpoint answers with success and status
  200, and when every question of the chosen category has been played the question of the
  answer is \<^verbatim>\<open>None\<close>.
\<close>

lemma play_quiz_succeeds:
  assumes "quiz_category data \<noteq> Null" and "previous_questions data \<noteq> Null"
  shows "\<exists>q. play_quiz s data r = Inr (QuizBody True q, 200)"
proof -
  from assms(1) obtain obj where
    obj: "dict_get (quiz_category data) (Some \<lparr>id_field = Absent\<rparr>) = Some obj"
    by (cases "quiz_category data") auto
  from assms(2) obtain seen where
    seen: "dict_get (previous_questions data) (Some []) = Some seen"
    by (cases "previous_questions data") auto
  show ?thesis
    by (simp add: play_quiz_cases [OF obj seen])
qed

lemma play_quiz_exhausted:
  assumes "c \<noteq> 0"
    and "\<forall>q \<in> set (question_rows s). category q = str_int c \<longrightarrow> qid q \<in> set seen"
  shows "play_quiz s (quiz_request seen c) r = Inr (QuizBody True None, 200)"
proof -
  from assms have "available_questions s seen (Some c) = []"
    by (auto simp: available_questions_restricted filter_empty_conv)
  then show ?thesis
    by (simp add: play_quiz_def quiz_request_def)
qed

lemma play_quiz_exhausted_example:
  "play_quiz example_store (quiz_request [9, 2] 1) 7 = Inr (QuizBody True None, 200)"
  by (rule play_quiz_exhausted)
     (simp_all add: str_int_1 example_store_def q_planet_def q_mona_def q_water_def)

text \<open>
  Claim C5 at the body \<^verbatim>\<open>{"previous_questions": [], "quiz_category": null}\<close>. The
  claim says the quiz endpoint never fails; for this body the handler calls \<^verbatim>\<open>get\<close> on
  \<^verbatim>\<open>None\<close>, and the request ends with status 500.
\<close>

theorem play_quiz_null_category:
  "play_quiz example_store \<lparr>previous_questions = Value [], quiz_category = Null\<rparr> 0 =
     Inl InternalServerError \<and>
   error_code InternalServerError = 500"
  by (simp add: play_quiz_def)


section \<open>Listing by category\<close>

text \<open>
  Claim C6. For a category of the catalog, the listing by category succeeds with exactly the
  questions whose stored category is the decimal string of the category id, their number,
  and the label of the category as \<^verbatim>\<open>currentCategory\<close>. For an id that no category of
  the catalog has, the outcome is \<^verbatim>\<open>NotFound\<close>.
\<close>

theorem get_questions_by_category_correct:
  assumes "wf_store s"
  shows "(\<forall>c. c \<in> set (category_rows s) \<longrightarrow>
            get_questions_by_category s (cid c) =
              Inr (\<lparr>success = True,
                    questions = filter (\<lambda>q. category q = str_int (cid c)) (question_rows s),
                    totalQuestions =
                      length (filter (\<lambda>q. category q = str_int (cid c)) (question_rows s)),
                    categories = None,
                    currentCategory = Some (ctype c)\<rparr>, 200)) \<and>
         (category_id \<notin> cid ` set (category_rows s) \<longrightarrow>
            get_questions_by_category s category_id = Inl NotFound)"
proof -
  from assms have d: "distinct (map cid (category_rows s))"
    by (simp add: wf_store_def)
  show ?thesis
    by (simp add: get_questions_by_category_def Let_def find_cid_distinct [OF d] find_absent)
qed

text \<open>The science category has two questions; there is no category 7.\<close>

theorem get_questions_by_category_correct_witness:
  "wf_store example_store \<and>
   \<lparr>cid = 1, ctype = ''Science''\<rparr> \<in> set (category_rows example_store) \<and>
   get_questions_by_category example_store 1 =
     Inr (\<lparr>success = True, questions = [q_planet, q_water], totalQuestions = 2,
           categories = None, currentCategory = Some ''Science''\<rparr>, 200) \<and>
   7 \<notin> cid ` set (category_rows example_store) \<and>
   get_questions_by_category example_store 7 = Inl NotFound"
  using get_questions_by_category_correct [OF wf_example_store, of 7] wf_example_store
  by (simp add: example_store_def str_int_1 q_planet_def q_mona_def q_water_def)

text \<open>
  Claim C10. For a category of the catalog that no stored question refers to, the listing
  by category is a success with an empty list of questions and \<^verbatim>\<open>totalQuestions\<close> 0,
  not \<^verbatim>\<open>NotFound\<close>.
\<close>

theorem get_questions_by_category_empty:
  assumes "wf_store s"
    and "c \<in> set (category_rows s)"
    and "\<forall>q \<in> set (question_rows s). category q \<noteq> str_int (cid c)"
  shows "get_questions_by_category s (cid c) =
           Inr (\<lparr>success = True, questions = [], totalQuestions = 0,
                 categories = None, currentCategory = Some (ctype c)\<rparr>, 200)"
proof -
  from assms(1) have d: "distinct (map cid (category_rows s))"
    by (simp add: wf_store_def)
  from assms(3) have "filter (\<lambda>q. category q = str_int (cid c)) (question_rows s) = []"
    by (simp add: filter_empty_conv)
  then show ?thesis
    by (simp add: get_questions_by_category_def Let_def find_cid_distinct [OF d assms(2)])
qed

text \<open>No sample question is in the geography category.\<close>

theorem get_questions_by_category_empty_witness:
  "wf_store example_store \<and>
   \<lparr>cid = 3, ctype = ''Geography''\<rparr> \<in> set (category_rows example_store) \<and>
   list_all (\<lambda>q. category q \<noteq> str_int 3) (question_rows example_store) \<and>
   get_questions_by_category example_store 3 =
     Inr (\<lparr>success = True, questions = [], totalQuestions = 0,
           categories = None, currentCategory = Some ''Geography''\<rparr>, 200)"
proof -
  have c: "\<lparr>cid = 3, ctype = ''Geography''\<rparr> \<in> set (category_rows example_store)"
    by (simp add: example_store_def)
  have e: "\<forall>q \<in> set (question_rows example_store).
             category q \<noteq> str_int (cid \<lparr>cid = 3, ctype = ''Geography''\<rparr>)"
    by (simp add: example_store_def str_int_3 q_planet_def q_mona_def q_water_def)
  from get_questions_by_category_empty [OF wf_example_store c e] wf_example_store c e
  show ?thesis
    by (simp add: list_all_iff)
qed

section \<open>Deleting a question\<close>

lemma find_qid_Some:
  "i \<in> qid ` set xs \<Longrightarrow> \<exists>q. find (\<lambda>q. qid q = i) xs = Some q \<and> qid q = i"
  by (induction xs) auto

lemma length_filter_remove_key:
  "distinct (map f xs) \<Longrightarrow> k \<in> f ` set xs \<Longrightarrow>
     Suc (length (filter (\<lambda>x. f x \<noteq> k) xs)) = length xs"
proof (induction xs)
  case Nil
  then show ?case by simp
next
  case (Cons x xs)
  show ?case
  proof (cases "f x = k")
    case True
    with Cons.prems have "k \<notin> f ` set xs"
      by auto
    then have "filter (\<lambda>x. f x \<noteq> k) xs = xs"
      by (auto simp: filter_id_conv)
    with True show ?thesis
      by simp
  next
    case False
    with Cons show ?thesis
      by auto
  qed
qed

lemma remove_question_cases:
  "remove_question s i =
     (if i \<in> qid ` set (question_rows s)
      then Inr (s\<lparr>question_rows := filter (\<lambda>q. qid q \<noteq> i) (question_rows s)\<rparr>,
                DeleteBody True i, 200)
      else Inl NotFound)"
proof (cases "i \<in> qid ` set (question_rows s)")
  case True
  from find_qid_Some [OF this] show ?thesis
    using True by (auto simp: remove_question_def)
next
  case False
  then show ?thesis
    by (simp add: remove_question_def find_absent)
qed

lemma add_or_search_question_rows:
  "add_or_search_question s p = Inr (s', body, status) \<Longrightarrow>
     s' = s \<or>
     (\<exists>q. s' = s\<lparr>question_rows := question_rows s @ [q],
                  question_id_seq := question_id_seq s + 1\<rparr> \<and> qid q = question_id_seq s)"
  by (auto simp: add_or_search_question_def insert_question_def Let_def split: if_splits)

lemma id_retired_apply_request: "id_retired i s \<Longrightarrow> id_retired i (apply_request s r)"
proof (cases r)
  case (PostQuestions p)
  assume "id_retired i s"
  then show ?thesis
    using PostQuestions
    by (auto simp: id_retired_def split: sum.splits dest!: add_or_search_question_rows)
next
  case (DeleteQuestion k)
  assume "id_retired i s"
  then show ?thesis
    using DeleteQuestion
    by (auto simp: id_retired_def remove_question_cases)
qed

lemma id_retired_apply_requests: "id_retired i s \<Longrightarrow> id_retired i (apply_requests s rs)"
  by (induction rs arbitrary: s) (simp_all add: id_retired_apply_request)

text \<open>
  Claim C7. Deleting fails with \<^verbatim>\<open>NotFound\<close> exactly when no stored question has the id.
  When one has, the request succeeds and returns the id, the table loses that one row, and
  no later run of creations and deletions brings the id back.
\<close>

theorem remove_question_correct:
  assumes "wf_store s"
  shows "(remove_question s i = Inl NotFound \<longleftrightarrow> i \<notin> qid ` set (question_rows s)) \<and>
         (i \<in> qid ` set (question_rows s) \<longrightarrow>
            (\<exists>s'. remove_question s i = Inr (s', DeleteBody True i, 200) \<and>
                  question_rows s' = filter (\<lambda>q. qid q \<noteq> i) (question_rows s) \<and>
                  Suc (length (question_rows s')) = length (question_rows s) \<and>
                  (\<forall>rs. i \<notin> qid ` set (question_rows (apply_requests s' rs)))))"
proof -
  let ?s' = "s\<lparr>question_rows := filter (\<lambda>q. qid q \<noteq> i) (question_rows s)\<rparr>"
  have "\<forall>rs. i \<notin> qid ` set (question_rows (apply_requests ?s' rs))"
    if mem: "i \<in> qid ` set (question_rows s)"
  proof
    fix rs
    from assms mem have "i < question_id_seq s"
      by (auto simp: wf_store_def list_all_iff)
    then have "id_retired i ?s'"
      by (auto simp: id_retired_def)
    from id_retired_apply_requests [OF this]
    show "i \<notin> qid ` set (question_rows (apply_requests ?s' rs))"
      by (simp add: id_retired_def)
  qed
  moreover have "Suc (length (question_rows ?s')) = length (question_rows s)"
    if "i \<in> qid ` set (question_rows s)"
    using assms that by (simp add: wf_store_def length_filter_remove_key)
  ultimately show ?thesis
    by (simp add: remove_question_cases)
qed

text \<open>
  There is no question 4. Question 5 is deleted; creating the same question again gives
  it the new id 10.
\<close>

theorem remove_question_correct_witness:
  "wf_store example_store \<and>
   4 \<notin> qid ` set (question_rows example_store) \<and>
   remove_question example_store 4 = Inl NotFound \<and>
   5 \<in> qid ` set (question_rows example_store) \<and>
   remove_question example_store 5 =
     Inr (example_store\<lparr>question_rows := [q_planet, q_water]\<rparr>, DeleteBody True 5, 200) \<and>
   map qid (question_rows (apply_requests (example_store\<lparr>question_rows := [q_planet, q_water]\<rparr>)
      [PostQuestions (create_payload ''Who painted the Mona Lisa?'' ''Leonardo'' 3 2)])) =
     [2, 9, 10]"
  using remove_question_correct [OF wf_example_store, of 4]
    remove_question_correct [OF wf_example_store, of 5] wf_example_store
  by (simp add: remove_question_cases add_or_search_question_def insert_question_def
        create_payload_def example_store_def q_planet_def q_mona_def q_water_def)

section \<open>Creating a question\<close>

lemma truthy_str_iff: "truthy_str x \<longleftrightarrow> x \<noteq> None \<and> x \<noteq> Some []"
  by (cases x) simp_all

lemma truthy_int_iff: "truthy_int x \<longleftrightarrow> x \<noteq> None \<and> x \<noteq> Some 0"
  by (cases x) simp_all

lemma create_branch:
  "\<not> truthy_str (searchTerm p) \<Longrightarrow>
     add_or_search_question s p =
       (if truthy_str (question_field p) \<and> truthy_str (answer_field p) \<and>
           truthy_int (difficulty_field p) \<and> truthy_int (category_field p)
        then Inr (insert_question s (the (question_field p)) (the (answer_field p))
                    (the (difficulty_field p)) (the (category_field p)),
                  CreateBody True, 201)
        else Inl Unprocessable)"
  by (simp add: add_or_search_question_def Let_def)

lemma search_branch:
  "searchTerm p = Some needle \<Longrightarrow> needle \<noteq> [] \<Longrightarrow>
     add_or_search_question s p =
       (let matches = filter (\<lambda>q. ilike (question q) (''%'' @ needle @ ''%'')) (question_rows s)
        in if matches = [] then Inl NotFound
           else Inr (s, SearchBody \<lparr>success = True, questions = matches,
                                     totalQuestions = length matches,
                                     categories = None, currentCategory = None\<rparr>, 200))"
  by (simp add: add_or_search_question_def Let_def)

lemma wf_store_insert_question:
  "wf_store s \<Longrightarrow> wf_store (insert_question s q a d c)"
  by (auto simp: wf_store_def insert_question_def list_all_iff)

lemma question_id_seq_fresh: "wf_store s \<Longrightarrow> question_id_seq s \<notin> qid ` set (question_rows s)"
  by (auto simp: wf_store_def list_all_iff)

text \<open>
  Claim C3 as stated fails: a body whose four fields are all present, with non-empty
  texts, is still rejected when the difficulty is the integer 0.
\<close>

theorem create_zero_difficulty_counterexample:
  "\<not> spec_missing_or_empty (create_payload ''How hard is it?'' ''Not at all'' 0 1) \<and>
   add_or_search_question example_store (create_payload ''How hard is it?'' ''Not at all'' 0 1) =
     Inl Unprocessable"
  by (simp add: spec_missing_or_empty_def create_payload_def add_or_search_question_def)

text \<open>
  Claim C3, amended. Without a search term, the request fails with status 422 exactly when
  one of the four fields is missing or null, a text is empty, or the difficulty or the
  category is the integer 0. Otherwise it succeeds with status 201, and the table gains
  one row with the given question, answer and difficulty, the decimal string of the
  category, and the next id of the sequence, which no stored question has.
\<close>

theorem create_question_truthy:
  assumes "wf_store s"
    and "\<not> truthy_str (searchTerm p)"
  shows "(add_or_search_question s p = Inl Unprocessable \<longleftrightarrow>
            question_field p = None \<or> question_field p = Some [] \<or>
            answer_field p = None \<or> answer_field p = Some [] \<or>
            difficulty_field p = None \<or> difficulty_field p = Some 0 \<or>
            category_field p = None \<or> category_field p = Some 0) \<and>
         (question_field p = Some q \<and> q \<noteq> [] \<and> answer_field p = Some a \<and> a \<noteq> [] \<and>
          difficulty_field p = Some d \<and> d \<noteq> 0 \<and> category_field p = Some c \<and> c \<noteq> 0 \<longrightarrow>
            (\<exists>s'. add_or_search_question s p = Inr (s', CreateBody True, 201) \<and>
                  question_rows s' = question_rows s @
                    [\<lparr>qid = question_id_seq s, question = q, answer = a,
                      category = str_int c, difficulty = d\<rparr>] \<and>
                  question_id_seq s \<notin> qid ` set (question_rows s) \<and>
                  wf_store s'))"
proof -
  have "add_or_search_question s p = Inl Unprocessable \<longleftrightarrow>
          question_field p = None \<or> question_field p = Some [] \<or>
          answer_field p = None \<or> answer_field p = Some [] \<or>
          difficulty_field p = None \<or> difficulty_field p = Some 0 \<or>
          category_field p = None \<or> category_field p = Some 0"
    using assms(2) by (auto simp: create_branch truthy_str_iff truthy_int_iff)
  moreover have "\<exists>s'. add_or_search_question s p = Inr (s', CreateBody True, 201) \<and>
                  question_rows s' = question_rows s @
                    [\<lparr>qid = question_id_seq s, question = q, answer = a,
                      category = str_int c, difficulty = d\<rparr>] \<and>
                  question_id_seq s \<notin> qid ` set (question_rows s) \<and>
                  wf_store s'"
    if "question_field p = Some q" "q \<noteq> []" "answer_field p = Some a" "a \<noteq> []"
       "difficulty_field p = Some d" "d \<noteq> 0" "category_field p = Some c" "c \<noteq> 0"
  proof -
    from that assms(2) have "add_or_search_question s p =
        Inr (insert_question s q a d c, CreateBody True, 201)"
      by (simp add: create_branch)
    moreover have "question_rows (insert_question s q a d c) = question_rows s @
                    [\<lparr>qid = question_id_seq s, question = q, answer = a,
                      category = str_int c, difficulty = d\<rparr>]"
      by (simp add: insert_question_def)
    ultimately show ?thesis
      using wf_store_insert_question [OF assms(1)] question_id_seq_fresh [OF assms(1)]
      by simp
  qed
  ultimately show ?thesis
    by blast
qed

text \<open>Difficulty 0 is rejected; difficulty 4 creates question 10.\<close>

theorem create_question_truthy_witness:
  "wf_store example_store \<and>
   \<not> truthy_str (searchTerm (create_payload ''How hard is it?'' ''Not at all'' 0 1)) \<and>
   difficulty_field (create_payload ''How hard is it?'' ''Not at all'' 0 1) = Some 0 \<and>
   add_or_search_question example_store (create_payload ''How hard is it?'' ''Not at all'' 0 1) =
     Inl Unprocessable \<and>
   add_or_search_question example_store (create_payload ''How hard is it?'' ''Not at all'' 4 3) =
     Inr (example_store\<lparr>question_rows := [q_planet, q_mona, q_water,
            \<lparr>qid = 10, question = ''How hard is it?'', answer = ''Not at all'',
              category = ''3'', difficulty = 4\<rparr>],
            question_id_seq := 11\<rparr>, CreateBody True, 201) \<and>
   10 \<notin> qid ` set (question_rows example_store)"
proof -
  have s: "\<not> truthy_str (searchTerm (create_payload q a d c))" for q a d c
    by (simp add: create_payload_def)
  from create_question_truthy [OF wf_example_store s, of "''How hard is it?''" "''Not at all''" 0 1]
    create_question_truthy [OF wf_example_store s, of "''How hard is it?''" "''Not at all''" 4 3
      "''How hard is it?''" "''Not at all''" 4 3]
    wf_example_store
  show ?thesis
    by (simp add: create_payload_def create_branch insert_question_def str_int_3
          example_store_def q_planet_def q_mona_def q_water_def)
qed

section \<open>Searching\<close>

lemma lower_char_special [simp]:
  "lower_char c = CHR ''%'' \<longleftrightarrow> c = CHR ''%''"
  "lower_char c = CHR ''_'' \<longleftrightarrow> c = CHR ''_''"
  "lower_char c = CHR 0x5C \<longleftrightarrow> c = CHR 0x5C"
  by (simp_all add: lower_char_def)

lemma like_plain_lower: "like_plain (map lower_char ps) = like_plain ps"
  by (simp add: like_plain_def list_all_iff)

lemma like_match_percent_only: "like_match [CHR ''%''] t"
  by (induction t) simp_all

lemma like_match_percent:
  "like_match (CHR ''%'' # ps) t \<longleftrightarrow> (\<exists>u v. t = u @ v \<and> like_match ps v)"
proof (induction t)
  case Nil
  then show ?case by simp
next
  case (Cons c t)
  have "(\<exists>u v. c # t = u @ v \<and> like_match ps v) \<longleftrightarrow>
        like_match ps (c # t) \<or> (\<exists>u v. t = u @ v \<and> like_match ps v)"
    by (auto simp: Cons_eq_append_conv)
  with Cons show ?case
    by simp
qed

lemma like_match_plain:
  "like_plain ps \<Longrightarrow> like_match (ps @ rest) t \<longleftrightarrow> (\<exists>v. t = ps @ v \<and> like_match rest v)"
proof (induction ps arbitrary: t)
  case Nil
  then show ?case by simp
next
  case (Cons p ps)
  then have p: "p \<noteq> CHR ''%''" "p \<noteq> CHR ''_''" "p \<noteq> CHR 0x5C" and ps: "like_plain ps"
    by (simp_all add: like_plain_def)
  show ?case
    using p Cons.IH [OF ps] by (cases t) auto
qed

lemma like_match_contains:
  "like_plain ps \<Longrightarrow> like_match (CHR ''%'' # ps @ [CHR ''%'']) t \<longleftrightarrow> sublist ps t"
proof -
  assume ps: "like_plain ps"
  have "like_match (CHR ''%'' # ps @ [CHR ''%'']) t \<longleftrightarrow>
        (\<exists>u v. t = u @ v \<and> like_match (ps @ [CHR ''%'']) v)"
    by (rule like_match_percent)
  also have "\<dots> \<longleftrightarrow> (\<exists>u v. t = u @ v \<and> (\<exists>w. v = ps @ w))"
    by (simp only: like_match_plain [OF ps] like_match_percent_only simp_thms)
  also have "\<dots> \<longleftrightarrow> sublist ps t"
    by (auto simp: sublist_def)
  finally show ?thesis .
qed

lemma ilike_plain:
  "like_plain needle \<Longrightarrow>
     ilike text (''%'' @ needle @ ''%'') \<longleftrightarrow> sublist (map lower_char needle) (map lower_char text)"
proof -
  assume "like_plain needle"
  then have "like_plain (map lower_char needle)"
    by (simp add: like_plain_lower)
  from like_match_contains [OF this, of "map lower_char text"] show ?thesis
    by (simp add: ilike_def lower_char_def [of "CHR ''%''"] del: like_match.simps)
qed

lemma like_wf_percent: "like_wf (ps @ ''%'')"
  by (induction ps rule: like_wf.induct) simp_all

lemma search_pattern_wf: "like_wf (map lower_char (''%'' @ needle @ ''%''))"
  using like_wf_percent [of "map lower_char (''%'' @ needle)"]
  by (simp add: lower_char_def [of "CHR ''%''"])

text \<open>
  For a search term without \<^verbatim>\<open>%\<close>, \<^verbatim>\<open>_\<close> and backslash, the handler returns exactly the
  questions that contain the term, compared without regard to case, and \<^verbatim>\<open>NotFound\<close>
  when there is none.
\<close>

lemma search_plain_is_substring:
  "searchTerm p = Some needle \<Longrightarrow> needle \<noteq> [] \<Longrightarrow> like_plain needle \<Longrightarrow>
     add_or_search_question s p =
       (if searchBySubstring_spec needle (question_rows s) = [] then Inl NotFound
        else Inr (s, SearchBody \<lparr>success = True,
                    questions = searchBySubstring_spec needle (question_rows s),
                    totalQuestions = length (searchBySubstring_spec needle (question_rows s)),
                    categories = None, currentCategory = None\<rparr>, 200))"
  by (simp add: add_or_search_question_def Let_def searchBySubstring_spec_def ilike_plain
        del: append.simps)

lemma ilike_empty_term: "ilike text (''%'' @ [] @ ''%'')"
proof -
  have "like_match ''%%'' t" for t
    by (simp only: like_match_percent [of "''%''"] like_match_percent_only) blast
  then show ?thesis
    by (simp add: ilike_def lower_char_def [of "CHR ''%''"] del: like_match.simps)
qed

text \<open>
  Claim C2 at the search term \<^verbatim>\<open>_\<close>. No sample question contains an underscore, so the
  literal substring search of the claim finds nothing and the outcome would be
  \<^verbatim>\<open>NotFound\<close>; the handler answers with success and all three questions, since the
  underscore of the pattern stands for any character.
\<close>

theorem search_wildcard_term:
  "add_or_search_question example_store (search_payload ''_'') =
     Inr (example_store,
          SearchBody \<lparr>success = True, questions = [q_planet, q_mona, q_water],
                      totalQuestions = 3, categories = None, currentCategory = None\<rparr>, 200) \<and>
   searchBySubstring_spec ''_'' (question_rows example_store) = []"
  by (simp add: add_or_search_question_def search_payload_def Let_def ilike_def
        searchBySubstring_spec_def sublist_code format_def
        lower_char_def example_store_def q_planet_def q_mona_def q_water_def)

lemma search_planet:
 "add_or_search_question example_store (search_payload ''PLANET'') =
     Inr (example_store,
          SearchBody \<lparr>success = True, questions = [q_planet],
                      totalQuestions = 1, categories = None, currentCategory = None\<rparr>, 200)"
  by (simp add: add_or_search_question_def search_payload_def Let_def ilike_def format_def
        lower_char_def example_store_def q_planet_def q_mona_def q_water_def)

section \<open>Listing the questions page by page\<close>

lemma filter_interval_upt:
  "filter (\<lambda>i. a \<le> i \<and> i < b) [0..<n] = [a..<min b n]"
proof (induction n)
  case 0
  then show ?case by simp
next
  case (Suc n)
  show ?case
  proof (cases "a \<le> n \<and> n < b")
    case True
    then have "min b (Suc n) = Suc n" "min b n = n"
      by simp_all
    with True Suc show ?thesis
      by simp
  next
    case False
    then have "[a..<min b (Suc n)] = [a..<min b n]"
      by (auto simp: min_def)
    with False Suc show ?thesis
      by simp
  qed
qed

lemma map_nth_interval:
  "b \<le> length xs \<Longrightarrow> map (\<lambda>i. xs ! i) [a..<b] = take (b - a) (drop a xs)"
proof -
  assume b: "b \<le> length xs"
  have "take (b - a) (drop a xs) = take (b - a) (drop a (map (\<lambda>i. xs ! i) [0..<length xs]))"
    by (simp only: map_nth)
  also have "\<dots> = map (\<lambda>i. xs ! i) (take (b - a) [a..<length xs])"
    by (simp add: take_map drop_map)
  also have "take (b - a) [a..<length xs] = [a..<b]"
  proof (cases "a \<le> b")
    case True
    with b show ?thesis by simp
  next
    case False
    then show ?thesis by simp
  qed
  finally show ?thesis by simp
qed

lemma items_in_range:
  assumes "0 \<le> lo" and "lo \<le> hi"
  shows "map (\<lambda>i. xs ! i) (filter (\<lambda>i. lo \<le> int i \<and> int i < hi) [0..<length xs]) =
           take (nat hi - nat lo) (drop (nat lo) xs)"
proof -
  from assms have cond: "(lo \<le> int i \<and> int i < hi) = (nat lo \<le> i \<and> i < nat hi)" for i
    by auto
  have "map (\<lambda>i. xs ! i) (filter (\<lambda>i. lo \<le> int i \<and> int i < hi) [0..<length xs]) =
          map (\<lambda>i. xs ! i) [nat lo..<min (nat hi) (length xs)]"
    by (simp only: cond filter_interval_upt)
  also have "\<dots> = take (min (nat hi) (length xs) - nat lo) (drop (nat lo) xs)"
    by (rule map_nth_interval) simp
  also have "\<dots> = take (nat hi - nat lo) (drop (nat lo) xs)"
    by (cases "nat hi \<le> length xs") (simp_all add: min_def)
  finally show ?thesis .
qed

lemma py_slice_nonneg:
  assumes "0 \<le> lo" and "lo \<le> hi"
  shows "py_slice xs lo hi = take (nat hi - nat lo) (drop (nat lo) xs)"
proof -
  from assms have "py_slice xs lo hi =
      take (min (nat hi) (length xs) - min (nat lo) (length xs))
        (drop (min (nat lo) (length xs)) xs)"
    by (simp add: py_slice_def slice_bound_def Let_def)
  also have "\<dots> = take (nat hi - nat lo) (drop (nat lo) xs)"
    by (cases "nat hi \<le> length xs"; cases "nat lo \<le> length xs") (simp_all add: min_def)
  finally show ?thesis .
qed

lemma paginate_spec_nonpositive: "p \<le> 0 \<Longrightarrow> paginate_spec xs p 10 = []"
proof -
  assume "p \<le> 0"
  then have "\<not> ((p - 1) * 10 \<le> int i \<and> int i < p * 10)" for i
    by auto
  then show ?thesis
    unfolding paginate_spec_def by simp
qed

lemma py_slice_page_zero: "py_slice xs ((0 - 1) * 10) (0 * 10) = []"
  by (simp add: py_slice_def slice_bound_def)

lemma py_slice_page_spec:
  assumes "0 \<le> p"
  shows "py_slice xs ((p - 1) * 10) (p * 10) = paginate_spec xs p 10"
proof (cases "p = 0")
  case True
  with py_slice_page_zero [of xs] paginate_spec_nonpositive [of 0 xs] show ?thesis
    by simp
next
  case False
  with assms have lo: "0 \<le> (p - 1) * 10" and hi: "(p - 1) * 10 \<le> p * 10"
    by simp_all
  show ?thesis
    unfolding paginate_spec_def
    by (simp only: py_slice_nonneg [OF lo hi] items_in_range [OF lo hi])
qed

lemma py_slice_page:
  assumes "1 \<le> p"
  shows "py_slice xs ((p - 1) * 10) (p * 10) = take 10 (drop (nat ((p - 1) * 10)) xs)"
proof -
  from assms have lo: "0 \<le> (p - 1) * 10" and hi: "(p - 1) * 10 \<le> p * 10"
    by simp_all
  from assms have "nat (p * 10) - nat ((p - 1) * 10) = 10"
    by simp
  with py_slice_nonneg [OF lo hi, of xs] show ?thesis
    by (simp only:)
qed

lemma get_questions_cases:
  "get_questions s page_arg =
     (let page = (case page_arg of None \<Rightarrow> 1 | Some p \<Rightarrow> p);
          paginated = py_slice (sort_key qid (question_rows s)) ((page - 1) * 10) (page * 10)
      in if paginated = [] then Inl NotFound
         else Inr (\<lparr>success = True, questions = paginated,
                     totalQuestions = length (question_rows s),
                     categories = Some (categories_dict (category_rows s)),
                     currentCategory = None\<rparr>, 200))"
  by (simp add: get_questions_def Let_def QUESTIONS_PER_PAGE_def)

text \<open>
  From page 0 on, the listing does what the specification says: it returns the items of
  the questions ordered by id whose index lies in the range of the page, and \<^verbatim>\<open>NotFound\<close>
  when there is none. Page 0 is always \<^verbatim>\<open>NotFound\<close>.
\<close>

lemma get_questions_page_spec:
  "0 \<le> p \<Longrightarrow>
     get_questions s (Some p) =
       (if paginate_spec (sort_key qid (question_rows s)) p 10 = [] then Inl NotFound
        else Inr (\<lparr>success = True,
                    questions = paginate_spec (sort_key qid (question_rows s)) p 10,
                    totalQuestions = length (question_rows s),
                    categories = Some (categories_dict (category_rows s)),
                    currentCategory = None\<rparr>, 200))"
proof -
  assume p: "0 \<le> p"
  show ?thesis
    unfolding get_questions_cases Let_def option.case
    by (simp only: py_slice_page_spec [OF p])
qed

lemma sorted_paged_store:
  "sort_key qid (question_rows paged_store) =
     map numbered_question [1, 2, 3, 4, 5, 6, 7, 8, 9, 10, 12]"
  by (simp add: paged_store_def numbered_question_def)

text \<open>
  Claim C1 at page \<^verbatim>\<open>-1\<close>, with eleven stored questions. No index lies in the range
  \<^verbatim>\<open>[-20, -10)\<close>, so the page of the claim is empty and the outcome would be \<^verbatim>\<open>NotFound\<close>;
  the handler answers with success and the question with the smallest id, since the
  negative bounds of the slice count from the end of the list.
\<close>

theorem get_questions_negative_page:
  "get_questions paged_store (Some (- 1)) =
     Inr (\<lparr>success = True, questions = [numbered_question 1], totalQuestions = 11,
           categories = Some (categories_dict (category_rows paged_store)),
           currentCategory = None\<rparr>, 200) \<and>
   paginate_spec (sort_key qid (question_rows paged_store)) (- 1) 10 = []"
proof -
  have "py_slice (sort_key qid (question_rows paged_store)) ((- 1 - 1) * 10) (- 1 * 10) =
          [numbered_question 1]"
    by (simp add: sorted_paged_store py_slice_def slice_bound_def)
  moreover have "length (question_rows paged_store) = 11"
    by (simp add: paged_store_def)
  ultimately show ?thesis
    by (simp add: get_questions_cases paginate_spec_nonpositive)
qed

lemma get_questions_page_two:
  "get_questions paged_store (Some 2) =
     Inr (\<lparr>success = True, questions = [numbered_question 12], totalQuestions = 11,
           categories = Some (categories_dict (category_rows paged_store)),
           currentCategory = None\<rparr>, 200)"
proof -
  have "py_slice (sort_key qid (question_rows paged_store)) ((2 - 1) * 10) (2 * 10) =
          [numbered_question 12]"
    by (simp add: sorted_paged_store py_slice_def slice_bound_def)
  moreover have "length (question_rows paged_store) = 11"
    by (simp add: paged_store_def)
  ultimately show ?thesis
    by (simp add: get_questions_cases)
qed

section \<open>The empty search term, and the two meanings of totalQuestions\<close>

text \<open>
  Claim C8. A body whose search term is the empty text is handled as a creation: the
  outcome is that of the same body without a search term, it is never a search result,
  and with no creation field it is the status 422, although the pattern built from the
  empty term matches every stored question.
\<close>

theorem empty_search_term_creates:
  assumes "searchTerm p = Some []"
  shows "add_or_search_question s p = add_or_search_question s (p\<lparr>searchTerm := None\<rparr>) \<and>
         (\<forall>s' body status. add_or_search_question s p \<noteq> Inr (s', SearchBody body, status)) \<and>
         (question_field p = None \<and> answer_field p = None \<and>
          difficulty_field p = None \<and> category_field p = None \<longrightarrow>
            add_or_search_question s p = Inl Unprocessable) \<and>
         list_all (\<lambda>q. ilike (question q) (''%'' @ [] @ ''%'')) (question_rows s)"
proof -
  from assms have falsy: "\<not> truthy_str (searchTerm p)"
    by simp
  have "add_or_search_question s p = add_or_search_question s (p\<lparr>searchTerm := None\<rparr>)"
    using falsy by (simp add: create_branch)
  moreover have "add_or_search_question s p \<noteq> Inr (s', SearchBody body, status)"
    for s' body status
    using falsy by (simp add: create_branch)
  moreover have "add_or_search_question s p = Inl Unprocessable"
    if "question_field p = None"
    using falsy that by (simp add: create_branch)
  moreover have "list_all (\<lambda>q. ilike (question q) (''%'' @ [] @ ''%'')) (question_rows s)"
    using ilike_empty_term by (simp add: list_all_iff del: append.simps)
  ultimately show ?thesis
    by blast
qed

text \<open>Searching the sample data for the empty text.\<close>

theorem empty_search_term_creates_witness:
  "searchTerm (search_payload []) = Some [] \<and>
   question_field (search_payload []) = None \<and> answer_field (search_payload []) = None \<and>
   difficulty_field (search_payload []) = None \<and> category_field (search_payload []) = None \<and>
   add_or_search_question example_store (search_payload []) = Inl Unprocessable \<and>
   filter (\<lambda>q. ilike (question q) ''%%'') (question_rows example_store) =
     [q_planet, q_mona, q_water]"
proof -
  have t: "searchTerm (search_payload []) = Some []"
    by (simp add: search_payload_def)
  note run = empty_search_term_creates [OF t, of example_store]
  from run [THEN conjunct2, THEN conjunct2, THEN conjunct1]
  have "add_or_search_question example_store (search_payload []) = Inl Unprocessable"
    by (simp add: search_payload_def)
  moreover from run [THEN conjunct2, THEN conjunct2, THEN conjunct2]
  have "filter (\<lambda>q. ilike (question q) ''%%'') (question_rows example_store) =
          [q_planet, q_mona, q_water]"
    by (simp add: search_payload_def list_all_iff example_store_def)
  ultimately show ?thesis
    by (simp add: search_payload_def)
qed

text \<open>
  Claim C9. In the paginated listing \<^verbatim>\<open>totalQuestions\<close> is the number of all stored
  questions, whatever the page; in a search result it is the number of the questions
  returned, those that match the search term.
\<close>

theorem totalQuestions_meaning:
  "(get_questions s page_arg = Inr (body, status) \<longrightarrow>
      totalQuestions body = length (question_rows s)) \<and>
   (add_or_search_question s p = Inr (s', SearchBody body', status') \<longrightarrow>
      (\<exists>needle. searchTerm p = Some needle \<and>
         questions body' =
           filter (\<lambda>q. ilike (question q) (''%'' @ needle @ ''%'')) (question_rows s) \<and>
         totalQuestions body' = length (questions body')))"
proof -
  have "totalQuestions body = length (question_rows s)"
    if "get_questions s page_arg = Inr (body, status)"
    using that by (auto simp: get_questions_cases Let_def split: if_splits)
  moreover have "\<exists>needle. searchTerm p = Some needle \<and>
         questions body' =
           filter (\<lambda>q. ilike (question q) (''%'' @ needle @ ''%'')) (question_rows s) \<and>
         totalQuestions body' = length (questions body')"
    if run: "add_or_search_question s p = Inr (s', SearchBody body', status')"
  proof (cases "searchTerm p")
    case None
    with run show ?thesis
      by (simp add: create_branch split: if_splits)
  next
    case (Some needle)
    show ?thesis
    proof (cases "needle = []")
      case True
      with Some run show ?thesis
        by (simp add: create_branch split: if_splits)
    next
      case False
      from run show ?thesis
        unfolding search_branch [OF Some False] Let_def
        using Some by (auto split: if_splits)
    qed
  qed
  ultimately show ?thesis
    by blast
qed

text \<open>
  Page 2 of eleven questions holds one question and reports 11; the search for PLANET
  among three questions reports 1.
\<close>

theorem totalQuestions_meaning_witness:
  "get_questions paged_store (Some 2) =
     Inr (\<lparr>success = True, questions = [numbered_question 12], totalQuestions = 11,
           categories = Some (categories_dict (category_rows paged_store)),
           currentCategory = None\<rparr>, 200) \<and>
   length (question_rows paged_store) = 11 \<and>
   add_or_search_question example_store (search_payload ''PLANET'') =
     Inr (example_store,
          SearchBody \<lparr>success = True, questions = [q_planet], totalQuestions = 1,
                      categories = None, currentCategory = None\<rparr>, 200) \<and>
   length (question_rows example_store) = 3"
  using
    totalQuestions_meaning [of paged_store "Some 2"
      "\<lparr>success = True, questions = [numbered_question 12], totalQuestions = 11,
        categories = Some (categories_dict (category_rows paged_store)),
        currentCategory = None\<rparr>" 200]
    totalQuestions_meaning [of example_store _ _ _ "search_payload ''PLANET''" example_store
      "\<lparr>success = True, questions = [q_planet], totalQuestions = 1,
        categories = None, currentCategory = None\<rparr>" 200]
    get_questions_page_two search_planet
  by (simp add: paged_store_def example_store_def)

end
